theory Spec2Isabelle
  imports Main
begin

section \<open>JavaScript values\<close>

text \<open>
  The orchestration function \<^verbatim>\<open>createRequestState\<close> is generic in the response type
  and tests several of its inputs for truthiness (\<^verbatim>\<open>if (immediate)\<close>, \<^verbatim>\<open>!cachedResponse\<close>,
  \<^verbatim>\<open>if (fetching)\<close>), so the values it inspects are modelled as JavaScript values.
  Numbers are integers here (no NaN, no fractions); functions are opaque references;
  objects are association lists.
\<close>

datatype jsval =
    JUndefined
  | JNull
  | JBool bool
  | JNum int
  | JStr string
  | JFun nat
  | JObj "(string \<times> jsval) list"

text \<open>ToBoolean: what \<^verbatim>\<open>if (v)\<close>, \<^verbatim>\<open>!v\<close> and \<^verbatim>\<open>!!v\<close> look at.\<close>

fun truthy :: "jsval \<Rightarrow> bool" where
  "truthy JUndefined = False"
| "truthy JNull = False"
| "truthy (JBool b) = b"
| "truthy (JNum n) = (n \<noteq> 0)"
| "truthy (JStr s) = (s \<noteq> [])"
| "truthy (JFun f) = True"
| "truthy (JObj kvs) = True"

text \<open>
  Modelled from the spec: the constants \<^verbatim>\<open>trueValue\<close>, \<^verbatim>\<open>falseValue\<close> and
  \<^verbatim>\<open>undefinedValue\<close> are imported from \<^verbatim>\<open>utils/variables\<close>, which is not among the
  sources; they stand for \<^verbatim>\<open>true\<close>, \<^verbatim>\<open>false\<close> and \<^verbatim>\<open>undefined\<close>.
\<close>

definition trueValue :: jsval where
  "trueValue = JBool True"

definition falseValue :: jsval where
  "falseValue = JBool False"

definition undefinedValue :: jsval where
  "undefinedValue = JUndefined"

text \<open>A default parameter \<^verbatim>\<open>x = d\<close> replaces \<^verbatim>\<open>undefined\<close> only (not \<^verbatim>\<open>null\<close>).\<close>

definition default_param :: "jsval \<Rightarrow> jsval \<Rightarrow> jsval" where
  "default_param x d = (if x = JUndefined then d else x)"

text \<open>The operator \<^verbatim>\<open>a ?? b\<close> replaces \<^verbatim>\<open>undefined\<close> and \<^verbatim>\<open>null\<close>.\<close>

definition nullish_coalescing :: "jsval \<Rightarrow> jsval \<Rightarrow> jsval" where
  "nullish_coalescing a b = (if a = JUndefined \<or> a = JNull then b else a)"

text \<open>Reading a property of an object: an absent key reads as \<^verbatim>\<open>undefined\<close>.\<close>

definition get_prop :: "(string \<rightharpoonup> jsval) \<Rightarrow> string \<Rightarrow> jsval" where
  "get_prop obj k = (case obj k of None \<Rightarrow> JUndefined | Some v \<Rightarrow> v)"

section \<open>Promises\<close>

text \<open>
  A promise is modelled by how it settles. \<^verbatim>\<open>promiseCatch(p, f)\<close> is \<^verbatim>\<open>p.catch(f)\<close>: the
  derived promise is fulfilled with \<^verbatim>\<open>f(e)\<close> when \<^verbatim>\<open>p\<close> rejects with \<^verbatim>\<open>e\<close>, and settles as
  \<^verbatim>\<open>p\<close> does otherwise. Modelled from the spec: \<^verbatim>\<open>promiseCatch\<close> (utils/variables) and
  \<^verbatim>\<open>noop\<close> (utils/helper) are not among the sources; the spec (section 7) says the
  rejection is swallowed at this layer.
\<close>

datatype promise = Pending | Fulfilled jsval | Rejected jsval

definition noop :: "jsval \<Rightarrow> jsval" where
  "noop e = JUndefined"

definition promiseCatch :: "promise \<Rightarrow> (jsval \<Rightarrow> jsval) \<Rightarrow> promise" where
  "promiseCatch p onrejected =
     (case p of Rejected e \<Rightarrow> Fulfilled (onrejected e) | Fulfilled v \<Rightarrow> Fulfilled v | Pending \<Rightarrow> Pending)"

text \<open>
  The host's scheduler sees a rejection as unhandled when a promise rejects and no
  rejection handler was attached to it.
\<close>

record tracked_promise =
  settles :: promise
  handled :: bool

definition unhandledRejection :: "tracked_promise \<Rightarrow> bool" where
  "unhandledRejection t =
     (case settles t of Rejected e \<Rightarrow> \<not> handled t | Fulfilled v \<Rightarrow> False | Pending \<Rightarrow> False)"

section \<open>Data model\<close>

text \<open>
  \<^verbatim>\<open>useHookConfig\<close>: the two fields \<^verbatim>\<open>createRequestState\<close> reads. An absent \<^verbatim>\<open>force\<close> is
  \<^verbatim>\<open>JUndefined\<close>; an absent \<^verbatim>\<open>managedStates\<close> is \<^verbatim>\<open>None\<close>. State collections
  (\<^verbatim>\<open>managedStates\<close>, \<^verbatim>\<open>frontStates\<close>) are objects keyed by state name: maps from names to
  state handles \<^typ>\<open>'s\<close>.
\<close>

record 's useHookConfig =
  force :: jsval
  managedStates :: "(string \<rightharpoonup> 's) option"

text \<open>
  The hook instance (the spec's ExecutionContext), with the fields this function reads
  or writes: front states \<^verbatim>\<open>fs\<close>, success, error and complete handlers \<^verbatim>\<open>sh\<close>, \<^verbatim>\<open>eh\<close>,
  \<^verbatim>\<open>ch\<close>, the remove and save functions \<^verbatim>\<open>rf\<close>, \<^verbatim>\<open>sf\<close>, the config \<^verbatim>\<open>c\<close> and the abort
  function \<^verbatim>\<open>ar\<close>. Handlers are opaque (\<^typ>\<open>'fn\<close>); the functions this file calls act on
  the world \<^typ>\<open>'w\<close> outside the hook instance (host state, transport).
\<close>

record ('s, 'fn, 'w) hook =
  fs :: "string \<rightharpoonup> 's"
  sh :: "'fn list"
  eh :: "'fn list"
  ch :: "'fn list"
  rf :: "('w \<Rightarrow> 'w) list"
  sf :: "((string \<rightharpoonup> 's) \<Rightarrow> 'w \<Rightarrow> 'w) list"
  c :: "'s useHookConfig"
  ar :: "'w \<Rightarrow> 'w"

text \<open>The object handed to the host's \<^verbatim>\<open>effectRequest\<close> (lines 120-133).\<close>

record ('s, 'e, 'st) effectParams =
  handler :: "int option \<Rightarrow> 'st \<Rightarrow> 'st"
  removeStates :: "'st \<Rightarrow> 'st"
  saveStates :: "(string \<rightharpoonup> 's) \<Rightarrow> 'st \<Rightarrow> 'st"
  frontStates :: "string \<rightharpoonup> 's"
  watchingStates :: "'e list option"
  immediate :: jsval

text \<open>
  The host's state binding (\<^verbatim>\<open>statesHook\<close>). Its primitives are not part of this
  function: they are inputs. Each threads the host's world; \<^verbatim>\<open>effectRequest\<close> may run the
  handler at once, so it can also change the hook instance. \<^verbatim>\<open>export\<close> is named
  \<^verbatim>\<open>stateExport\<close> as in the destructuring at line 63, the host's \<^verbatim>\<open>update\<close> is
  \<^verbatim>\<open>statesHook_update\<close>. An absent \<^verbatim>\<open>ref\<close> is \<^verbatim>\<open>None\<close>. \<^verbatim>\<open>memorize\<close> is taken at its
  default \<^verbatim>\<open>_self\<close>: a memoised function behaves as the function it wraps.
\<close>

record ('s, 'x, 'e, 'fn, 'w) statesHook =
  create :: "jsval \<Rightarrow> ('s, 'fn, 'w) hook \<Rightarrow> 'w \<Rightarrow> 's \<times> 'w"
  stateExport :: "'s \<Rightarrow> ('s, 'fn, 'w) hook \<Rightarrow> 'w \<Rightarrow> 'x \<times> 'w"
  effectRequest ::
    "('s, 'e, ('s, 'fn, 'w) hook \<times> 'w) effectParams \<Rightarrow> ('s, 'fn, 'w) hook \<Rightarrow> 'w
       \<Rightarrow> ('s, 'fn, 'w) hook \<times> 'w"
  statesHook_update ::
    "(string \<rightharpoonup> jsval) \<Rightarrow> (string \<rightharpoonup> 's) \<Rightarrow> ('s, 'fn, 'w) hook \<Rightarrow> 'w \<Rightarrow> 'w"
  ref :: "(('s, 'fn, 'w) hook \<Rightarrow> 'w \<Rightarrow> ('s, 'fn, 'w) hook \<times> 'w) option"

record ('s, 'x, 'e, 'fn, 'w) alova =
  alova_id :: string
  alova_statesHook :: "('s, 'x, 'e, 'fn, 'w) statesHook option"

text \<open>
  \<^verbatim>\<open>getStatesHook\<close> (utils/helper, not among the sources) reads the host's binding off
  the alova instance; an instance without one gives \<open>None\<close>, and the assertion at line 60
  fails.
\<close>

definition getStatesHook ::
  "('s, 'x, 'e, 'fn, 'w) alova \<Rightarrow> ('s, 'x, 'e, 'fn, 'w) statesHook option" where
  "getStatesHook alovaInstance = alova_statesHook alovaInstance"

text \<open>
  The imports of \<^verbatim>\<open>createRequestState\<close> that are not among the sources are parameters:
  the server-rendering flag, the response cache lookup (\<^verbatim>\<open>R | undefined\<close>), the key
  generator, \<^verbatim>\<open>getHandlerMethod\<close>, \<^verbatim>\<open>sloughConfig\<close>, \<^verbatim>\<open>createHook\<close>,
  \<^verbatim>\<open>useHookToSendRequest\<close> (one request attempt: the promise it returns, and what it does
  to the hook instance and the world) and \<^verbatim>\<open>debounce\<close>.
\<close>

record ('m, 'mh, 's, 'fn, 'w) env =
  isSSR :: bool
  getResponseCache :: "string \<Rightarrow> string \<Rightarrow> jsval"
  key :: "'m \<Rightarrow> string"
  getHandlerMethod :: "'mh \<Rightarrow> 'm"
  sloughConfig :: "jsval \<Rightarrow> jsval"
  createHook :: "nat \<Rightarrow> 's useHookConfig \<Rightarrow> ('s, 'fn, 'w) hook"
  useHookToSendRequest ::
    "('s, 'fn, 'w) hook \<Rightarrow> 'mh \<Rightarrow> jsval list option \<Rightarrow> bool option \<Rightarrow> 'w
       \<Rightarrow> promise \<times> ('s, 'fn, 'w) hook \<times> 'w"
  debounce ::
    "(('s, 'fn, 'w) hook \<times> 'w \<Rightarrow> ('s, 'fn, 'w) hook \<times> 'w) \<Rightarrow> (int option \<Rightarrow> int option)
       \<Rightarrow> int option \<Rightarrow> ('s, 'fn, 'w) hook \<times> 'w \<Rightarrow> ('s, 'fn, 'w) hook \<times> 'w"

datatype failure = AssertionFailed string

text \<open>\<^verbatim>\<open>debounceDelay\<close> is a number or an array of numbers.\<close>

datatype debounce_delay = Delay int | Delays "int list"

type_synonym ('s, 'fn, 'w) st = "('s, 'fn, 'w) hook \<times> 'w"

section \<open>The pieces of \<^verbatim>\<open>createRequestState\<close>\<close>

subsection \<open>Initial loading (lines 69-80)\<close>

definition initialLoading_of ::
  "('m, 'mh, 's, 'fn, 'w) env \<Rightarrow> ('s, 'x, 'e, 'fn, 'w) alova \<Rightarrow> 'mh \<Rightarrow> 's useHookConfig
     \<Rightarrow> jsval \<Rightarrow> bool" where
  "initialLoading_of env alovaInstance methodHandler useHookConfig immediate' =
     (if truthy immediate' then
        (let cachedResponse =
               getResponseCache env (alova_id alovaInstance)
                 (key env (getHandlerMethod env methodHandler));
             forceRequestFinally =
               sloughConfig env (nullish_coalescing (force useHookConfig) falseValue)
         in truthy forceRequestFinally \<or> \<not> truthy cachedResponse)
      else False)"

subsection \<open>Front states (lines 83-96)\<close>

definition progress :: jsval where
  "progress = JObj [(''total'', JNum 0), (''loaded'', JNum 0)]"

record 's coreStates =
  dataState :: 's
  loadingState :: 's
  errorState :: 's
  downloadingState :: 's
  uploadingState :: 's

text \<open>
  The five \<^verbatim>\<open>create\<close> calls of the object literal, in source order, and the object
  \<^verbatim>\<open>{ ...managedStates, data, loading, error, downloading, uploading }\<close>: the spread
  first, then the five keys, a later key replacing an earlier one.
\<close>

definition createFrontStates ::
  "('s, 'x, 'e, 'fn, 'w) statesHook \<Rightarrow> 's useHookConfig \<Rightarrow> jsval \<Rightarrow> bool
     \<Rightarrow> ('s, 'fn, 'w) hook \<Rightarrow> 'w \<Rightarrow> ('s coreStates \<times> (string \<rightharpoonup> 's)) \<times> 'w" where
  "createFrontStates statesHook useHookConfig initialData initialLoading hookInstance w0 =
     (let managed = (case managedStates useHookConfig of None \<Rightarrow> Map.empty | Some m \<Rightarrow> m);
          (d, w1) = create statesHook initialData hookInstance w0;
          (l, w2) = create statesHook (JBool initialLoading) hookInstance w1;
          (e, w3) = create statesHook undefinedValue hookInstance w2;
          (dl, w4) = create statesHook progress hookInstance w3;
          (ul, w5) = create statesHook progress hookInstance w4
      in ((\<lparr>dataState = d, loadingState = l, errorState = e,
             downloadingState = dl, uploadingState = ul\<rparr>,
           managed(''data'' \<mapsto> d, ''loading'' \<mapsto> l, ''error'' \<mapsto> e,
             ''downloading'' \<mapsto> dl, ''uploading'' \<mapsto> ul)),
          w5))"

subsection \<open>Sending (lines 100-109)\<close>

text \<open>
  \<^verbatim>\<open>handleRequest(handler = methodHandler, sendCallingArgs?, updateCacheState?)\<close>: an
  omitted handler is the orchestration's own method handler.
\<close>

definition handleRequest ::
  "('m, 'mh, 's, 'fn, 'w) env \<Rightarrow> 'mh \<Rightarrow> 'mh option \<Rightarrow> jsval list option \<Rightarrow> bool option
     \<Rightarrow> ('s, 'fn, 'w) st \<Rightarrow> promise \<times> ('s, 'fn, 'w) st" where
  "handleRequest env methodHandler handler' sendCallingArgs updateCacheState s =
     (case s of (hookInstance, w) \<Rightarrow>
        (case useHookToSendRequest env hookInstance
                (case handler' of None \<Rightarrow> methodHandler | Some h \<Rightarrow> h)
                sendCallingArgs updateCacheState w of
           (p, hookInstance', w') \<Rightarrow> (p, (hookInstance', w'))))"

text \<open>
  \<^verbatim>\<open>wrapEffectRequest = () => { promiseCatch(handleRequest(), noop); }\<close>. The function
  returns nothing. One run leaves two promises behind: the attempt's, with \<^verbatim>\<open>noop\<close>
  attached as its rejection handler, and the derived one, which nobody holds.
  \<^verbatim>\<open>wrapEffectRequest_trace\<close> returns them with the new state; \<^verbatim>\<open>wrapEffectRequest\<close> is the
  state change alone, which is all the host sees.
\<close>

definition wrapEffectRequest_trace ::
  "('m, 'mh, 's, 'fn, 'w) env \<Rightarrow> 'mh \<Rightarrow> ('s, 'fn, 'w) st
     \<Rightarrow> tracked_promise list \<times> ('s, 'fn, 'w) st" where
  "wrapEffectRequest_trace env methodHandler s =
     (case handleRequest env methodHandler None None None s of
        (p, s') \<Rightarrow>
          ([\<lparr>settles = p, handled = True\<rparr>,
            \<lparr>settles = promiseCatch p noop, handled = False\<rparr>], s'))"

definition wrapEffectRequest ::
  "('m, 'mh, 's, 'fn, 'w) env \<Rightarrow> 'mh \<Rightarrow> ('s, 'fn, 'w) st \<Rightarrow> ('s, 'fn, 'w) st" where
  "wrapEffectRequest env methodHandler s = snd (wrapEffectRequest_trace env methodHandler s)"

subsection \<open>The effect (lines 119-135)\<close>

text \<open>\<^verbatim>\<open>debounceDelay[changedIndex]\<close>: outside the array the read is \<^verbatim>\<open>undefined\<close>.\<close>

definition array_get :: "int list \<Rightarrow> int \<Rightarrow> int option" where
  "array_get xs i = (if 0 \<le> i \<and> nat i < length xs then Some (xs ! nat i) else None)"

text \<open>
  The delay resolver of lines 124-126. \<^verbatim>\<open>changedIndex\<close> is a number or absent
  (\<^verbatim>\<open>isNumber\<close> is the \<open>Some\<close> case); \<^verbatim>\<open>isArray(debounceDelay)\<close> is the \<open>Delays\<close> case. The
  result is a number or \<^verbatim>\<open>undefined\<close> (\<open>None\<close>).
\<close>

definition delayResolver :: "debounce_delay \<Rightarrow> int option \<Rightarrow> int option" where
  "delayResolver debounceDelay changedIndex =
     (case changedIndex of
        Some i \<Rightarrow> (case debounceDelay of Delays ds \<Rightarrow> array_get ds i | Delay d \<Rightarrow> Some d)
      | None \<Rightarrow> Some 0)"

text \<open>
  \<^verbatim>\<open>removeStates\<close> and \<^verbatim>\<open>saveStates\<close> call each function of \<^verbatim>\<open>hookInstance.rf\<close> and
  \<^verbatim>\<open>hookInstance.sf\<close> in order, reading the lists when they run.
\<close>

definition runRemoveStates :: "('s, 'fn, 'w) st \<Rightarrow> ('s, 'fn, 'w) st" where
  "runRemoveStates s = (case s of (hookInstance, w) \<Rightarrow>
     (hookInstance, fold (\<lambda>fn. fn) (rf hookInstance) w))"

definition runSaveStates :: "(string \<rightharpoonup> 's) \<Rightarrow> ('s, 'fn, 'w) st \<Rightarrow> ('s, 'fn, 'w) st" where
  "runSaveStates states s = (case s of (hookInstance, w) \<Rightarrow>
     (hookInstance, fold (\<lambda>fn. fn states) (sf hookInstance) w))"

definition effectParams_of ::
  "('m, 'mh, 's, 'fn, 'w) env \<Rightarrow> 'mh \<Rightarrow> (string \<rightharpoonup> 's) \<Rightarrow> 'e list option \<Rightarrow> debounce_delay
     \<Rightarrow> jsval \<Rightarrow> ('s, 'e, ('s, 'fn, 'w) st) effectParams" where
  "effectParams_of env methodHandler front watching debounceDelay immediate' =
     (let hasWatchingStates = (watching \<noteq> None)
      in \<lparr>handler =
            (if hasWatchingStates
             then debounce env (wrapEffectRequest env methodHandler) (delayResolver debounceDelay)
             else (\<lambda>changedIndex. wrapEffectRequest env methodHandler)),
          removeStates = runRemoveStates,
          saveStates = runSaveStates,
          frontStates = front,
          watchingStates = watching,
          immediate = nullish_coalescing immediate' trueValue\<rparr>)"

subsection \<open>Resetting the hook instance (lines 111-116)\<close>

definition resetHook ::
  "('s, 'fn, 'w) hook \<Rightarrow> (string \<rightharpoonup> 's) \<Rightarrow> 's useHookConfig \<Rightarrow> ('s, 'fn, 'w) hook" where
  "resetHook hookInstance front useHookConfig =
     hookInstance\<lparr>fs := front, sh := [], eh := [], ch := [], c := useHookConfig\<rparr>"

section \<open>\<^verbatim>\<open>createRequestState\<close>\<close>

text \<open>
  What one entry returns: the five exported states, the config (\<^verbatim>\<open>_$c\<close>) and the front
  states its operations close over. Two more fields record what happened on the way,
  for the theorems to speak about: \<open>entryHook\<close> is the hook instance as lines 112-116
  leave it, and \<open>registered\<close> is the call made to the host's \<^verbatim>\<open>effectRequest\<close> (its two
  arguments), \<open>None\<close> when no call was made.
\<close>

record ('s, 'x, 'e, 'fn, 'w) requestState =
  loading :: 'x
  data :: 'x
  error :: 'x
  downloading :: 'x
  uploading :: 'x
  config :: "'s useHookConfig"
  states :: "string \<rightharpoonup> 's"
  entryHook :: "('s, 'fn, 'w) hook"
  registered :: "(('s, 'e, ('s, 'fn, 'w) st) effectParams \<times> ('s, 'fn, 'w) hook) option"

text \<open>
  \<^verbatim>\<open>hookType\<close> (1, 2 or 3) is only passed on to \<^verbatim>\<open>createHook\<close>.
  The arguments \<^verbatim>\<open>immediate\<close> and \<^verbatim>\<open>debounceDelay\<close> have default parameters
  (\<^verbatim>\<open>falseValue\<close> and \<^verbatim>\<open>0\<close>); \<^verbatim>\<open>watchingStates\<close> is optional. The copy of
  \<^verbatim>\<open>useHookConfig\<close> at line 58 is the same value. The default \<^verbatim>\<open>ref\<close> wraps and unwraps
  its argument, so \<^verbatim>\<open>refCurrent(ref(x))\<close> is \<^verbatim>\<open>x\<close>; a host's \<^verbatim>\<open>ref\<close> may return another
  hook instance (the one it kept from an earlier entry).
\<close>

definition refCurrent_ref ::
  "('s, 'x, 'e, 'fn, 'w) statesHook \<Rightarrow> ('s, 'fn, 'w) hook \<Rightarrow> 'w \<Rightarrow> ('s, 'fn, 'w) hook \<times> 'w" where
  "refCurrent_ref statesHook val w =
     (case ref statesHook of None \<Rightarrow> (val, w) | Some r \<Rightarrow> r val w)"

definition createRequestState ::
  "('m, 'mh, 's, 'fn, 'w) env \<Rightarrow> nat \<Rightarrow> ('s, 'x, 'e, 'fn, 'w) alova \<Rightarrow> 'mh \<Rightarrow> 's useHookConfig
     \<Rightarrow> jsval \<Rightarrow> jsval \<Rightarrow> 'e list option \<Rightarrow> debounce_delay option \<Rightarrow> 'w
     \<Rightarrow> failure + (('s, 'x, 'e, 'fn, 'w) requestState \<times> ('s, 'fn, 'w) st)" where
  "createRequestState env hookType alovaInstance methodHandler useHookConfig initialData
       immediate0 watching debounceDelay0 w0 =
     (let immediate' = default_param immediate0 falseValue;
          debounceDelay = (case debounceDelay0 of None \<Rightarrow> Delay 0 | Some d \<Rightarrow> d)
      in case getStatesHook alovaInstance of
           None \<Rightarrow> Inl (AssertionFailed ''`statesHook` is not found on alova instance.'')
         | Some statesHook \<Rightarrow>
            (let initialLoading =
                   initialLoading_of env alovaInstance methodHandler useHookConfig immediate';
                 (hookInstance0, w1) =
                   refCurrent_ref statesHook (createHook env hookType useHookConfig) w0;
                 ((core, front), w2) =
                   createFrontStates statesHook useHookConfig initialData initialLoading
                     hookInstance0 w1;
                 hookInstance = resetHook hookInstance0 front useHookConfig;
                 effect =
                   effectParams_of env methodHandler front watching debounceDelay immediate';
                 (reg, hookInstance', w3) =
                   (if \<not> isSSR env
                    then (Some (effect, hookInstance),
                          effectRequest statesHook effect hookInstance w2)
                    else (None, hookInstance, w2));
                 (xl, w4) = stateExport statesHook (loadingState core) hookInstance' w3;
                 (xd, w5) = stateExport statesHook (dataState core) hookInstance' w4;
                 (xe, w6) = stateExport statesHook (errorState core) hookInstance' w5;
                 (xdl, w7) = stateExport statesHook (downloadingState core) hookInstance' w6;
                 (xul, w8) = stateExport statesHook (uploadingState core) hookInstance' w7
             in Inr (\<lparr>loading = xl, data = xd, error = xe, downloading = xdl, uploading = xul,
                       config = useHookConfig, states = front, entryHook = hookInstance,
                       registered = reg\<rparr>,
                     (hookInstance', w8))))"

text \<open>Reading the recorded call off an outcome.\<close>

definition registeredEffect ::
  "failure + (('s, 'x, 'e, 'fn, 'w) requestState \<times> ('s, 'fn, 'w) st)
     \<Rightarrow> ('s, 'e, ('s, 'fn, 'w) st) effectParams option" where
  "registeredEffect res =
     (case res of Inl err \<Rightarrow> None | Inr (r, s) \<Rightarrow> map_option fst (registered r))"

text \<open>
  What an entry leaves behind: the hook instance and the host's world, after every call
  the entry made to the host. Nothing recorded on the side enters here.
\<close>

definition outcomeState ::
  "failure + (('s, 'x, 'e, 'fn, 'w) requestState \<times> ('s, 'fn, 'w) st)
     \<Rightarrow> ('s, 'fn, 'w) st option" where
  "outcomeState res = (case res of Inl err \<Rightarrow> None | Inr (r, s) \<Rightarrow> Some s)"

text \<open>
  Lines 138-144 on their own: the five \<^verbatim>\<open>export\<close> calls in source order (loading,
  data, error, downloading, uploading), from the state the effect step left. They read
  the hook instance and thread the world.
\<close>

definition exportStates ::
  "('s, 'x, 'e, 'fn, 'w) statesHook \<Rightarrow> 's coreStates \<Rightarrow> ('s, 'fn, 'w) st
     \<Rightarrow> ('x \<times> 'x \<times> 'x \<times> 'x \<times> 'x) \<times> ('s, 'fn, 'w) st" where
  "exportStates statesHook core s =
     (case s of (hookInstance, w3) \<Rightarrow>
        (let (xl, w4) = stateExport statesHook (loadingState core) hookInstance w3;
             (xd, w5) = stateExport statesHook (dataState core) hookInstance w4;
             (xe, w6) = stateExport statesHook (errorState core) hookInstance w5;
             (xdl, w7) = stateExport statesHook (downloadingState core) hookInstance w6;
             (xul, w8) = stateExport statesHook (uploadingState core) hookInstance w7
         in ((xl, xd, xe, xdl, xul), (hookInstance, w8))))"

section \<open>The returned operations (lines 148-183)\<close>

text \<open>
  The operations close over \<^verbatim>\<open>hookInstance\<close>, \<^verbatim>\<open>frontStates\<close>, the host's \<^verbatim>\<open>update\<close> and
  \<^verbatim>\<open>methodHandler\<close>; here they take them as arguments, and the hook instance from the
  state. \<^verbatim>\<open>pushItem\<close> appends to an array.
\<close>

definition onSuccess :: "'fn \<Rightarrow> ('s, 'fn, 'w) st \<Rightarrow> ('s, 'fn, 'w) st" where
  "onSuccess h s = (case s of (hookInstance, w) \<Rightarrow> (hookInstance\<lparr>sh := sh hookInstance @ [h]\<rparr>, w))"

definition onError :: "'fn \<Rightarrow> ('s, 'fn, 'w) st \<Rightarrow> ('s, 'fn, 'w) st" where
  "onError h s = (case s of (hookInstance, w) \<Rightarrow> (hookInstance\<lparr>eh := eh hookInstance @ [h]\<rparr>, w))"

definition onComplete :: "'fn \<Rightarrow> ('s, 'fn, 'w) st \<Rightarrow> ('s, 'fn, 'w) st" where
  "onComplete h s = (case s of (hookInstance, w) \<Rightarrow> (hookInstance\<lparr>ch := ch hookInstance @ [h]\<rparr>, w))"

definition deleteAttr :: "(string \<rightharpoonup> jsval) \<Rightarrow> string \<Rightarrow> (string \<rightharpoonup> jsval)" where
  "deleteAttr obj attr = obj(attr := None)"

text \<open>
  \<^verbatim>\<open>update\<close> (lines 159-167) changes the patch object it is given in place and hands it
  to the host's \<^verbatim>\<open>update\<close>: the result is the patch object as the call leaves it, and the
  new state.
\<close>

definition update ::
  "('s, 'x, 'e, 'fn, 'w) statesHook \<Rightarrow> (string \<rightharpoonup> 's) \<Rightarrow> (string \<rightharpoonup> jsval)
     \<Rightarrow> ('s, 'fn, 'w) st \<Rightarrow> (string \<rightharpoonup> jsval) \<times> ('s, 'fn, 'w) st" where
  "update statesHook front newStates s =
     (case s of (hookInstance, w) \<Rightarrow>
        (let fetching = get_prop newStates ''fetching'';
             newStates' =
               (if truthy fetching
                then deleteAttr (newStates(''loading'' \<mapsto> fetching)) ''fetching''
                else newStates)
         in (newStates',
             (hookInstance, statesHook_update statesHook newStates' front hookInstance w))))"

definition abort :: "('s, 'fn, 'w) st \<Rightarrow> ('s, 'fn, 'w) st" where
  "abort s = (case s of (hookInstance, w) \<Rightarrow> (hookInstance, ar hookInstance w))"

definition send ::
  "('m, 'mh, 's, 'fn, 'w) env \<Rightarrow> 'mh \<Rightarrow> jsval list option \<Rightarrow> 'mh option \<Rightarrow> bool option
     \<Rightarrow> ('s, 'fn, 'w) st \<Rightarrow> promise \<times> ('s, 'fn, 'w) st" where
  "send env methodHandler sendCallingArgs methodInstance isFetcher s =
     handleRequest env methodHandler methodInstance sendCallingArgs isFetcher s"

text \<open>
  Modelled from the spec: the abort function \<^verbatim>\<open>ar\<close> of the hook instance is bound by
  \<^verbatim>\<open>createHook\<close> and \<^verbatim>\<open>useHookToSendRequest\<close>, neither of which is among the sources.
  The spec (4.4, abort) says the bound function "must be safe to call when no request
  is in flight (no-op)": while nothing is in flight, the bound function is this one.
\<close>

definition idleAbort :: "'w \<Rightarrow> 'w" where
  "idleAbort w = w"

section \<open>A small host, for concrete runs\<close>

text \<open>
  State handles and exported states are the values they hold; the world is the log of
  the values the host's \<^verbatim>\<open>update\<close> wrote to \<^verbatim>\<open>loading\<close>; methods are their keys; the
  cache answers every key with \<open>cached\<close>; every request attempt settles as \<open>attempt\<close>;
  \<^verbatim>\<open>sloughConfig\<close> returns a plain value as it is; \<^verbatim>\<open>debounce\<close> notes the delay it
  resolved in the world and runs its function at once.
\<close>

definition exampleHost :: "(jsval, jsval, jsval, nat, jsval list) statesHook" where
  "exampleHost =
     \<lparr>create = (\<lambda>v hk w. (v, w)),
      stateExport = (\<lambda>s hk w. (s, w)),
      effectRequest = (\<lambda>eff hk w. (hk, w)),
      statesHook_update = (\<lambda>patch front hk w. w @ [get_prop patch ''loading'']),
      ref = None\<rparr>"

definition exampleHook :: "nat \<Rightarrow> jsval useHookConfig \<Rightarrow> (jsval, nat, jsval list) hook" where
  "exampleHook hookType cfg =
     \<lparr>fs = Map.empty, sh = [], eh = [], ch = [], rf = [], sf = [], c = cfg, ar = idleAbort\<rparr>"

definition exampleEnv ::
  "bool \<Rightarrow> jsval \<Rightarrow> promise \<Rightarrow> (string, string, jsval, nat, jsval list) env" where
  "exampleEnv ssr cached attempt =
     \<lparr>isSSR = ssr,
      getResponseCache = (\<lambda>namespace k. cached),
      key = (\<lambda>m. m),
      getHandlerMethod = (\<lambda>mh. mh),
      sloughConfig = (\<lambda>v. v),
      createHook = exampleHook,
      useHookToSendRequest = (\<lambda>hk mh args upd w. (attempt, hk, w)),
      debounce = (\<lambda>f delay changedIndex s.
         f (fst s, snd s @ [case delay changedIndex of None \<Rightarrow> JUndefined | Some d \<Rightarrow> JNum d]))\<rparr>"

definition exampleAlova :: "(jsval, jsval, jsval, nat, jsval list) alova" where
  "exampleAlova = \<lparr>alova_id = ''alova'', alova_statesHook = Some exampleHost\<rparr>"

definition exampleConfig :: "jsval useHookConfig" where
  "exampleConfig = \<lparr>force = JUndefined, managedStates = None\<rparr>"

definition managingConfig :: "jsval useHookConfig" where
  "managingConfig =
     \<lparr>force = JUndefined,
      managedStates = Some [''data'' \<mapsto> JStr ''managed'', ''extra'' \<mapsto> JStr ''kept'']\<rparr>"

text \<open>
  A host that keeps the hook instance across entries, as a component framework's
  \<^verbatim>\<open>ref\<close> does: \<open>keptHook\<close> is what an earlier entry and its request left behind (a success
  handler, a remove function and a save function).
\<close>

definition keptHook :: "(jsval, nat, jsval list) hook" where
  "keptHook =
     \<lparr>fs = Map.empty, sh = [7], eh = [], ch = [],
      rf = [\<lambda>w. w @ [JStr ''removed'']], sf = [\<lambda>states w. w @ [JStr ''saved'']],
      c = exampleConfig, ar = idleAbort\<rparr>"

definition keepingAlova :: "(jsval, jsval, jsval, nat, jsval list) alova" where
  "keepingAlova =
     \<lparr>alova_id = ''alova'',
      alova_statesHook = Some (exampleHost\<lparr>ref := Some (\<lambda>val w. (keptHook, w))\<rparr>)\<rparr>"

text \<open>
  A host that shows what it is handed. Its \<^verbatim>\<open>effectRequest\<close> notes in the world the
  immediate flag of the effect and how many success handlers and remove functions the
  hook instance it is given holds, then fires the handler once, as if watched input 1
  had changed. \<open>loggingKeepingAlova\<close> also keeps the hook instance across entries.
\<close>

definition loggingHost :: "(jsval, jsval, jsval, nat, jsval list) statesHook" where
  "loggingHost =
     exampleHost\<lparr>effectRequest := (\<lambda>eff hk w.
        handler eff (Some 1)
          (hk, w @ [immediate eff, JNum (int (length (sh hk))), JNum (int (length (rf hk)))]))\<rparr>"

definition loggingAlova :: "(jsval, jsval, jsval, nat, jsval list) alova" where
  "loggingAlova = \<lparr>alova_id = ''alova'', alova_statesHook = Some loggingHost\<rparr>"

definition loggingKeepingAlova :: "(jsval, jsval, jsval, nat, jsval list) alova" where
  "loggingKeepingAlova =
     \<lparr>alova_id = ''alova'',
      alova_statesHook = Some (loggingHost\<lparr>ref := Some (\<lambda>val w. (keptHook, w))\<rparr>)\<rparr>"

text \<open>A host whose \<^verbatim>\<open>create\<close> notes in the world each initial value it is given.\<close>

definition creatingHost :: "(jsval, jsval, jsval, nat, jsval list) statesHook" where
  "creatingHost = exampleHost\<lparr>create := (\<lambda>v hk w. (v, w @ [v]))\<rparr>"

definition creatingAlova :: "(jsval, jsval, jsval, nat, jsval list) alova" where
  "creatingAlova = \<lparr>alova_id = ''alova'', alova_statesHook = Some creatingHost\<rparr>"

text \<open>An \<^verbatim>\<open>effectRequest\<close> that would show if it were called.\<close>

definition loudEffectRequest ::
  "(jsval, jsval, (jsval, nat, jsval list) st) effectParams \<Rightarrow> (jsval, nat, jsval list) hook
     \<Rightarrow> jsval list \<Rightarrow> (jsval, nat, jsval list) hook \<times> jsval list" where
  "loudEffectRequest eff hk w = (hk\<lparr>sh := [9]\<rparr>, w @ [JStr ''effect''])"

section \<open>What an entry leaves behind\<close>

text \<open>
  With a host binding present, the hook instance and world an entry leaves are those of
  this chain of host calls: \<^verbatim>\<open>ref\<close> on the created hook, the five \<^verbatim>\<open>create\<close> calls, then
  (unless rendering on the server) \<^verbatim>\<open>effectRequest\<close> on the effect of lines 120-133 and
  the hook instance as lines 112-116 reset it, then the five \<^verbatim>\<open>export\<close> calls. The host's
  primitives are arbitrary here, so the equation fixes which calls are made, in which
  order, and with which arguments.
\<close>

lemma createRequestState_outcome:
  assumes "getStatesHook alovaInstance = Some statesHook"
  shows "outcomeState
           (createRequestState env hookType alovaInstance methodHandler useHookConfig
              initialData immediate0 watching debounceDelay0 w0) =
         (let (hookInstance0, w1) =
                refCurrent_ref statesHook (createHook env hookType useHookConfig) w0;
              ((core, front), w2) =
                createFrontStates statesHook useHookConfig initialData
                  (initialLoading_of env alovaInstance methodHandler useHookConfig
                     (default_param immediate0 falseValue))
                  hookInstance0 w1;
              hookInstance = resetHook hookInstance0 front useHookConfig;
              eff = effectParams_of env methodHandler front watching
                      (case debounceDelay0 of None \<Rightarrow> Delay 0 | Some d \<Rightarrow> d)
                      (default_param immediate0 falseValue)
          in Some (snd (exportStates statesHook core
                          (if isSSR env then (hookInstance, w2)
                           else effectRequest statesHook eff hookInstance w2))))"
  using assms
  by (simp add: outcomeState_def createRequestState_def exportStates_def Let_def case_prod_beta)

section \<open>Initial loading\<close>

text \<open>
  Line 79 in one formula: the flag is set exactly when the entry fires immediately and
  the resolved force value is truthy or the cached response is falsy.
\<close>

lemma initialLoading_of_eq:
  "initialLoading_of env alovaInstance methodHandler useHookConfig immediate' =
     (truthy immediate' \<and>
      (truthy (sloughConfig env (nullish_coalescing (force useHookConfig) falseValue)) \<or>
       \<not> truthy (getResponseCache env (alova_id alovaInstance)
                   (key env (getHandlerMethod env methodHandler)))))"
  by (simp add: initialLoading_of_def Let_def)

lemma initialLoading_not_immediate:
  "\<not> truthy immediate' \<Longrightarrow>
     \<not> initialLoading_of env alovaInstance methodHandler useHookConfig immediate'"
  by (simp add: initialLoading_of_def)

lemma initialLoading_forced:
  "truthy immediate' \<Longrightarrow>
   truthy (sloughConfig env (nullish_coalescing (force useHookConfig) falseValue)) \<Longrightarrow>
     initialLoading_of env alovaInstance methodHandler useHookConfig immediate'"
  by (simp add: initialLoading_of_def Let_def)

text \<open>
  C1. The response cache answers a lookup with \<^verbatim>\<open>undefined\<close> (absent) or with a cached
  response, which is truthy. Then, for an entry with a host binding: the initial loading
  flag is false when the entry does not fire immediately, and otherwise it is
  (the resolved force value is truthy) or (the lookup for the method's key is absent),
  so with a truthy force value it is true whatever the cache holds. The loading state
  is the handle the host's \<^verbatim>\<open>create\<close> returns for that flag, in second place after the
  data state, and the entry's outcome is that of the call chain made with it.
\<close>

theorem initialLoading_flag:
  assumes "getStatesHook alovaInstance = Some statesHook"
    and "getResponseCache env (alova_id alovaInstance)
           (key env (getHandlerMethod env methodHandler)) = JUndefined
         \<or> truthy (getResponseCache env (alova_id alovaInstance)
                     (key env (getHandlerMethod env methodHandler)))"
  shows
    "(let immediate' = default_param immediate0 falseValue;
          initialLoading =
            (truthy immediate' \<and>
             (truthy (sloughConfig env (nullish_coalescing (force useHookConfig) falseValue))
              \<or> getResponseCache env (alova_id alovaInstance)
                   (key env (getHandlerMethod env methodHandler)) = JUndefined));
          (hookInstance0, w1) =
            refCurrent_ref statesHook (createHook env hookType useHookConfig) w0;
          (d, wd) = create statesHook initialData hookInstance0 w1;
          (l, wl) = create statesHook (JBool initialLoading) hookInstance0 wd;
          ((core, front), w2) =
            createFrontStates statesHook useHookConfig initialData initialLoading
              hookInstance0 w1;
          hookInstance = resetHook hookInstance0 front useHookConfig;
          eff = effectParams_of env methodHandler front watching
                  (case debounceDelay0 of None \<Rightarrow> Delay 0 | Some d \<Rightarrow> d) immediate'
      in initialLoading_of env alovaInstance methodHandler useHookConfig immediate'
           = initialLoading
       \<and> loadingState core = l
       \<and> front ''loading'' = Some l
       \<and> outcomeState
           (createRequestState env hookType alovaInstance methodHandler useHookConfig
              initialData immediate0 watching debounceDelay0 w0)
         = Some (snd (exportStates statesHook core
                        (if isSSR env then (hookInstance, w2)
                         else effectRequest statesHook eff hookInstance w2))))"
proof -
  have il: "initialLoading_of env alovaInstance methodHandler useHookConfig
              (default_param immediate0 falseValue) =
            (truthy (default_param immediate0 falseValue) \<and>
             (truthy (sloughConfig env (nullish_coalescing (force useHookConfig) falseValue))
              \<or> getResponseCache env (alova_id alovaInstance)
                   (key env (getHandlerMethod env methodHandler)) = JUndefined))"
    using assms(2) by (auto simp: initialLoading_of_eq)
  have out: "outcomeState
           (createRequestState env hookType alovaInstance methodHandler useHookConfig
              initialData immediate0 watching debounceDelay0 w0) =
         (let (hookInstance0, w1) =
                refCurrent_ref statesHook (createHook env hookType useHookConfig) w0;
              ((core, front), w2) =
                createFrontStates statesHook useHookConfig initialData
                  (initialLoading_of env alovaInstance methodHandler useHookConfig
                     (default_param immediate0 falseValue))
                  hookInstance0 w1;
              hookInstance = resetHook hookInstance0 front useHookConfig;
              eff = effectParams_of env methodHandler front watching
                      (case debounceDelay0 of None \<Rightarrow> Delay 0 | Some d \<Rightarrow> d)
                      (default_param immediate0 falseValue)
          in Some (snd (exportStates statesHook core
                          (if isSSR env then (hookInstance, w2)
                           else effectRequest statesHook eff hookInstance w2))))"
    by (rule createRequestState_outcome[OF assms(1)])
  show ?thesis
    unfolding Let_def case_prod_beta
  proof (intro conjI)
    show "initialLoading_of env alovaInstance methodHandler useHookConfig
            (default_param immediate0 falseValue) =
          (truthy (default_param immediate0 falseValue) \<and>
           (truthy (sloughConfig env (nullish_coalescing (force useHookConfig) falseValue))
            \<or> getResponseCache env (alova_id alovaInstance)
                 (key env (getHandlerMethod env methodHandler)) = JUndefined))"
      by (rule il)
  qed (simp_all add: out[unfolded il Let_def case_prod_beta]
         createFrontStates_def Let_def case_prod_beta)
qed

theorem initialLoading_flag_witness:
  "getStatesHook creatingAlova = Some creatingHost
   \<and> truthy (getResponseCache (exampleEnv False (JObj [(''id'', JNum 1)]) Pending)
               (alova_id creatingAlova)
               (key (exampleEnv False (JObj [(''id'', JNum 1)]) Pending)
                  (getHandlerMethod (exampleEnv False (JObj [(''id'', JNum 1)]) Pending) ''m'')))
   \<and> initialLoading_of (exampleEnv False (JObj [(''id'', JNum 1)]) Pending) creatingAlova ''m''
        exampleConfig trueValue = False
   \<and> map_option snd
        (outcomeState
           (createRequestState (exampleEnv False (JObj [(''id'', JNum 1)]) Pending) 1
              creatingAlova ''m'' exampleConfig (JStr ''init'') trueValue None None []))
       = Some [JStr ''init'', JBool False, JUndefined, progress, progress]
   \<and> map_option snd
        (outcomeState
           (createRequestState (exampleEnv False JUndefined Pending) 1
              creatingAlova ''m'' exampleConfig (JStr ''init'') trueValue None None []))
       = Some [JStr ''init'', JBool True, JUndefined, progress, progress]"
proof -
  have h1: "getStatesHook creatingAlova = Some creatingHost"
    by (simp add: getStatesHook_def creatingAlova_def)
  have h2: "getResponseCache (exampleEnv False (JObj [(''id'', JNum 1)]) Pending)
               (alova_id creatingAlova)
               (key (exampleEnv False (JObj [(''id'', JNum 1)]) Pending)
                  (getHandlerMethod (exampleEnv False (JObj [(''id'', JNum 1)]) Pending) ''m''))
              = JUndefined
            \<or> truthy (getResponseCache (exampleEnv False (JObj [(''id'', JNum 1)]) Pending)
               (alova_id creatingAlova)
               (key (exampleEnv False (JObj [(''id'', JNum 1)]) Pending)
                  (getHandlerMethod (exampleEnv False (JObj [(''id'', JNum 1)]) Pending) ''m'')))"
    by (simp add: exampleEnv_def)
  have h3: "getResponseCache (exampleEnv False JUndefined Pending)
               (alova_id creatingAlova)
               (key (exampleEnv False JUndefined Pending)
                  (getHandlerMethod (exampleEnv False JUndefined Pending) ''m''))
              = JUndefined
            \<or> truthy (getResponseCache (exampleEnv False JUndefined Pending)
               (alova_id creatingAlova)
               (key (exampleEnv False JUndefined Pending)
                  (getHandlerMethod (exampleEnv False JUndefined Pending) ''m'')))"
    by (simp add: exampleEnv_def)
  show ?thesis
    using h1
      initialLoading_flag[OF h1 h2, where hookType = 1 and useHookConfig = exampleConfig
        and initialData = "JStr ''init''" and ?immediate0.0 = trueValue and watching = None
        and ?debounceDelay0.0 = None and ?w0.0 = "[]"]
      initialLoading_flag[OF h1 h3, where hookType = 1 and useHookConfig = exampleConfig
        and initialData = "JStr ''init''" and ?immediate0.0 = trueValue and watching = None
        and ?debounceDelay0.0 = None and ?w0.0 = "[]"]
    by (simp add: Let_def case_prod_beta exampleEnv_def exampleConfig_def creatingHost_def
          exampleHost_def refCurrent_ref_def createFrontStates_def exportStates_def
          default_param_def nullish_coalescing_def trueValue_def falseValue_def
          undefinedValue_def)
qed

section \<open>The immediate flag of the effect\<close>

text \<open>
  The statement "an entry that leaves the immediate flag unspecified registers an effect
  with immediate = true" fails: the parameter is declared \<^verbatim>\<open>immediate = falseValue\<close>, so
  an omitted flag is \<^verbatim>\<open>false\<close> before \<^verbatim>\<open>immediate ?? trueValue\<close> at line 132 reads it.
  With the flag omitted, outside server rendering, the logging host is handed an effect
  whose immediate flag is \<^verbatim>\<open>false\<close> (first entry of its log).
\<close>

theorem immediate_unspecified_counterexample:
  "map_option snd
     (outcomeState
        (createRequestState (exampleEnv False JUndefined Pending) 1 loggingAlova ''m''
           exampleConfig JUndefined JUndefined None None []))
     = Some [JBool False, JNum 0, JNum 0]"
  by (simp add: outcomeState_def createRequestState_def Let_def case_prod_beta
        getStatesHook_def loggingAlova_def loggingHost_def exampleHost_def exampleEnv_def
        refCurrent_ref_def createFrontStates_def effectParams_of_def resetHook_def
        exampleHook_def wrapEffectRequest_def wrapEffectRequest_trace_def handleRequest_def
        default_param_def nullish_coalescing_def trueValue_def falseValue_def)

text \<open>
  C2, as the code has it. Outside server rendering, an entry that leaves the immediate
  flag unspecified (\<^verbatim>\<open>undefined\<close>) calls the host's \<^verbatim>\<open>effectRequest\<close> with an effect whose
  immediate flag is \<^verbatim>\<open>false\<close>: what the entry leaves behind is what \<^verbatim>\<open>effectRequest\<close>
  returns on that effect and the reset hook instance, followed by the exports.
\<close>

theorem immediate_of_effect:
  assumes "\<not> isSSR env" and "getStatesHook alovaInstance = Some statesHook"
  shows
    "(let (hookInstance0, w1) =
            refCurrent_ref statesHook (createHook env hookType useHookConfig) w0;
          ((core, front), w2) =
            createFrontStates statesHook useHookConfig initialData
              (initialLoading_of env alovaInstance methodHandler useHookConfig falseValue)
              hookInstance0 w1;
          hookInstance = resetHook hookInstance0 front useHookConfig;
          eff = effectParams_of env methodHandler front watching
                  (case debounceDelay0 of None \<Rightarrow> Delay 0 | Some d \<Rightarrow> d) falseValue
      in immediate eff = JBool False
       \<and> outcomeState
           (createRequestState env hookType alovaInstance methodHandler useHookConfig
              initialData JUndefined watching debounceDelay0 w0)
         = Some (snd (exportStates statesHook core
                        (effectRequest statesHook eff hookInstance w2))))"
proof -
  have d: "default_param JUndefined falseValue = falseValue"
    by (simp add: default_param_def)
  have i: "immediate (effectParams_of env methodHandler front' watching dd falseValue)
             = JBool False" for front' dd
    by (simp add: effectParams_of_def nullish_coalescing_def falseValue_def)
  show ?thesis
    using assms(1) createRequestState_outcome[OF assms(2), of env hookType methodHandler
            useHookConfig initialData JUndefined watching debounceDelay0 w0, unfolded d]
    by (simp add: i Let_def case_prod_beta)
qed

theorem immediate_of_effect_witness:
  "\<not> isSSR (exampleEnv False JUndefined Pending)
   \<and> getStatesHook loggingAlova = Some loggingHost
   \<and> map_option snd
       (outcomeState
          (createRequestState (exampleEnv False JUndefined Pending) 1 loggingAlova ''m''
             exampleConfig JUndefined JUndefined None None []))
       = Some [JBool False, JNum 0, JNum 0]"
proof -
  have h1: "\<not> isSSR (exampleEnv False JUndefined Pending)"
    by (simp add: exampleEnv_def)
  have h2: "getStatesHook loggingAlova = Some loggingHost"
    by (simp add: getStatesHook_def loggingAlova_def)
  show ?thesis
    using h1 h2
      immediate_of_effect[OF h1 h2, where hookType = 1 and methodHandler = "''m''"
        and useHookConfig = exampleConfig and initialData = JUndefined and watching = None
        and ?debounceDelay0.0 = None and ?w0.0 = "[]"]
    by (simp add: Let_def case_prod_beta loggingHost_def exampleHost_def exampleEnv_def
          refCurrent_ref_def createFrontStates_def exportStates_def effectParams_of_def
          resetHook_def exampleHook_def wrapEffectRequest_def wrapEffectRequest_trace_def
          handleRequest_def nullish_coalescing_def trueValue_def falseValue_def)
qed

section \<open>Resetting the hook instance on entry\<close>

text \<open>
  The statement "every entry replaces all five handler lists, remove and save included,
  with empty lists" fails: lines 112-116 assign \<^verbatim>\<open>fs\<close>, \<^verbatim>\<open>sh\<close>, \<^verbatim>\<open>eh\<close>, \<^verbatim>\<open>ch\<close> and \<^verbatim>\<open>c\<close>
  only. With a host whose \<^verbatim>\<open>ref\<close> keeps the hook instance, the hook instance the entry
  leaves has an empty success list, while its remove and save lists still hold what the
  earlier entry left; the host's log shows the same of the hook instance it was handed
  (no success handler, one remove function).
\<close>

theorem remove_save_lists_counterexample:
  "map_option (\<lambda>s. (sh (fst s), length (rf (fst s)), length (sf (fst s)), snd s))
     (outcomeState
        (createRequestState (exampleEnv False JUndefined Pending) 1 loggingKeepingAlova ''m''
           exampleConfig JUndefined JUndefined None None []))
     = Some ([], 1, 1, [JBool False, JNum 0, JNum 1])"
  by (simp add: outcomeState_def createRequestState_def Let_def case_prod_beta
        getStatesHook_def loggingKeepingAlova_def loggingHost_def exampleHost_def exampleEnv_def
        refCurrent_ref_def createFrontStates_def effectParams_of_def resetHook_def
        keptHook_def wrapEffectRequest_def wrapEffectRequest_trace_def handleRequest_def
        default_param_def nullish_coalescing_def trueValue_def falseValue_def)

text \<open>
  C3, as the code has it. On every entry with a host binding, the hook instance is
  reset before the effect is scheduled: the hook instance \<^verbatim>\<open>effectRequest\<close> is called
  with (and, on the server, the one the entry leaves) has empty success, error and
  complete handler lists, this entry's front states and this call's config; its remove
  and save lists are those of the hook instance \<^verbatim>\<open>ref\<close> returned, untouched. The exports
  leave the hook instance as the effect step left it. Where the host's \<^verbatim>\<open>effectRequest\<close>
  returns the hook instance as it got it, a handler registered after the entry is
  alone in its list.
\<close>

theorem hook_reset_on_entry:
  assumes "getStatesHook alovaInstance = Some statesHook"
  shows
    "(let (hookInstance0, w1) =
            refCurrent_ref statesHook (createHook env hookType useHookConfig) w0;
          ((core, front), w2) =
            createFrontStates statesHook useHookConfig initialData
              (initialLoading_of env alovaInstance methodHandler useHookConfig
                 (default_param immediate0 falseValue))
              hookInstance0 w1;
          hookInstance = resetHook hookInstance0 front useHookConfig;
          eff = effectParams_of env methodHandler front watching
                  (case debounceDelay0 of None \<Rightarrow> Delay 0 | Some d \<Rightarrow> d)
                  (default_param immediate0 falseValue);
          s3 = (if isSSR env then (hookInstance, w2)
                else effectRequest statesHook eff hookInstance w2);
          s = snd (exportStates statesHook core s3)
      in sh hookInstance = [] \<and> eh hookInstance = [] \<and> ch hookInstance = []
       \<and> fs hookInstance = front \<and> c hookInstance = useHookConfig
       \<and> rf hookInstance = rf hookInstance0 \<and> sf hookInstance = sf hookInstance0
       \<and> outcomeState
           (createRequestState env hookType alovaInstance methodHandler useHookConfig
              initialData immediate0 watching debounceDelay0 w0) = Some s
       \<and> fst s = fst s3
       \<and> (fst s3 = hookInstance \<longrightarrow>
            sh (fst (onSuccess h s)) = [h] \<and> eh (fst (onError h s)) = [h]
          \<and> ch (fst (onComplete h s)) = [h]))"
  using createRequestState_outcome[OF assms, of env hookType methodHandler
            useHookConfig initialData immediate0 watching debounceDelay0 w0]
  by (simp add: Let_def case_prod_beta resetHook_def exportStates_def
        onSuccess_def onError_def onComplete_def)

theorem hook_reset_on_entry_witness:
  "getStatesHook loggingKeepingAlova
     = Some (loggingHost\<lparr>ref := Some (\<lambda>val w. (keptHook, w))\<rparr>)
   \<and> sh keptHook = [7]
   \<and> map_option (\<lambda>s. (sh (fst s), length (rf (fst s)), length (sf (fst s)), snd s))
       (outcomeState
          (createRequestState (exampleEnv False JUndefined Pending) 1 loggingKeepingAlova ''m''
             exampleConfig JUndefined JUndefined None None []))
       = Some ([], 1, 1, [JBool False, JNum 0, JNum 1])
   \<and> map_option (\<lambda>s. sh (fst (onSuccess 3 s)))
       (outcomeState
          (createRequestState (exampleEnv False JUndefined Pending) 1 loggingKeepingAlova ''m''
             exampleConfig JUndefined JUndefined None None []))
       = Some [3]"
proof -
  have h: "getStatesHook loggingKeepingAlova
             = Some (loggingHost\<lparr>ref := Some (\<lambda>val w. (keptHook, w))\<rparr>)"
    by (simp add: getStatesHook_def loggingKeepingAlova_def)
  show ?thesis
    using h
      hook_reset_on_entry[OF h, where env = "exampleEnv False JUndefined Pending"
        and hookType = 1 and methodHandler = "''m''"
        and useHookConfig = exampleConfig and initialData = JUndefined
        and ?immediate0.0 = JUndefined and watching = None
        and ?debounceDelay0.0 = None and ?w0.0 = "[]" and h = 3]
    by (simp add: Let_def case_prod_beta loggingHost_def exampleHost_def exampleEnv_def
          refCurrent_ref_def createFrontStates_def exportStates_def effectParams_of_def
          resetHook_def keptHook_def wrapEffectRequest_def wrapEffectRequest_trace_def
          handleRequest_def default_param_def nullish_coalescing_def trueValue_def
          falseValue_def onSuccess_def)
qed

section \<open>\<^verbatim>\<open>update\<close> and the fetching flag\<close>

text \<open>A patch whose fetching flag is \<^verbatim>\<open>true\<close> is handled as the patch with loading \<^verbatim>\<open>true\<close>.\<close>

lemma update_fetching_true:
  "update statesHook front [''fetching'' \<mapsto> JBool True] s =
   update statesHook front [''loading'' \<mapsto> JBool True] s"
proof -
  have "deleteAttr ([''fetching'' \<mapsto> JBool True](''loading'' \<mapsto> JBool True)) ''fetching''
        = [''loading'' \<mapsto> JBool True]"
    by (rule ext) (simp add: deleteAttr_def)
  then show ?thesis
    by (simp add: update_def get_prop_def Let_def split: prod.splits)
qed

text \<open>
  C4. A fetching flag in a patch should be turned into the loading flag and removed, so
  that \<^verbatim>\<open>update({ fetching: b })\<close> does what \<^verbatim>\<open>update({ loading: b })\<close> does for both
  booleans. For \<^verbatim>\<open>true\<close> it does (lemma above). For \<^verbatim>\<open>false\<close> it does not: line 162 tests
  \<^verbatim>\<open>if (fetching)\<close>, so the patch is handed on as it came. The small host then writes
  \<^verbatim>\<open>undefined\<close> to loading where the loading patch makes it write \<^verbatim>\<open>false\<close>, and the patch
  object still has its fetching key and no loading key.
\<close>

theorem update_fetching_false:
  "snd (snd (update exampleHost Map.empty [''fetching'' \<mapsto> JBool False] (keptHook, [])))
     = [JUndefined]
   \<and> snd (snd (update exampleHost Map.empty [''loading'' \<mapsto> JBool False] (keptHook, [])))
     = [JBool False]
   \<and> fst (update exampleHost Map.empty [''fetching'' \<mapsto> JBool False] (keptHook, []))
       ''fetching'' = Some (JBool False)
   \<and> fst (update exampleHost Map.empty [''fetching'' \<mapsto> JBool False] (keptHook, []))
       ''loading'' = None"
  by (simp add: update_def get_prop_def Let_def exampleHost_def)

section \<open>The effect handler\<close>

text \<open>
  C5. Outside server rendering, the effect the host's \<^verbatim>\<open>effectRequest\<close> is called with
  has this handler: with no watched inputs (the argument is \<^verbatim>\<open>undefined\<close>) the
  error-suppressing wrapper \<^verbatim>\<open>wrapEffectRequest\<close>; with watched inputs, the empty list
  included, \<^verbatim>\<open>debounce\<close> applied to that wrapper and the delay resolver. What the entry
  leaves behind is what \<^verbatim>\<open>effectRequest\<close> returns on that effect and the reset hook
  instance, followed by the exports.
\<close>

theorem effect_handler_choice:
  assumes "\<not> isSSR env" and "getStatesHook alovaInstance = Some statesHook"
  shows
    "(let (hookInstance0, w1) =
            refCurrent_ref statesHook (createHook env hookType useHookConfig) w0;
          ((core, front), w2) =
            createFrontStates statesHook useHookConfig initialData
              (initialLoading_of env alovaInstance methodHandler useHookConfig
                 (default_param immediate0 falseValue))
              hookInstance0 w1;
          hookInstance = resetHook hookInstance0 front useHookConfig;
          eff = effectParams_of env methodHandler front watching
                  (case debounceDelay0 of None \<Rightarrow> Delay 0 | Some d \<Rightarrow> d)
                  (default_param immediate0 falseValue)
      in handler eff =
           (case watching of
              None \<Rightarrow> (\<lambda>changedIndex. wrapEffectRequest env methodHandler)
            | Some ws \<Rightarrow>
                debounce env (wrapEffectRequest env methodHandler)
                  (delayResolver (case debounceDelay0 of None \<Rightarrow> Delay 0 | Some d \<Rightarrow> d)))
       \<and> outcomeState
           (createRequestState env hookType alovaInstance methodHandler useHookConfig
              initialData immediate0 watching debounceDelay0 w0)
         = Some (snd (exportStates statesHook core
                        (effectRequest statesHook eff hookInstance w2))))"
proof -
  have i: "handler (effectParams_of env methodHandler front' watching dd imm) =
           (case watching of
              None \<Rightarrow> (\<lambda>changedIndex. wrapEffectRequest env methodHandler)
            | Some ws \<Rightarrow>
                debounce env (wrapEffectRequest env methodHandler) (delayResolver dd))"
    for front' dd imm
    by (simp add: effectParams_of_def split: option.splits)
  show ?thesis
    using assms(1) createRequestState_outcome[OF assms(2), of env hookType methodHandler
            useHookConfig initialData immediate0 watching debounceDelay0 w0]
    by (simp add: i Let_def case_prod_beta)
qed

theorem effect_handler_choice_witness:
  "\<not> isSSR (exampleEnv False JUndefined Pending)
   \<and> getStatesHook loggingAlova = Some loggingHost
   \<and> map_option snd
       (outcomeState
          (createRequestState (exampleEnv False JUndefined Pending) 1 loggingAlova ''m''
             exampleConfig JUndefined trueValue None (Some (Delays [300, 500])) []))
       = Some [JBool True, JNum 0, JNum 0]
   \<and> map_option snd
       (outcomeState
          (createRequestState (exampleEnv False JUndefined Pending) 1 loggingAlova ''m''
             exampleConfig JUndefined trueValue (Some []) (Some (Delays [300, 500])) []))
       = Some [JBool True, JNum 0, JNum 0, JNum 500]"
proof -
  have h1: "\<not> isSSR (exampleEnv False JUndefined Pending)"
    by (simp add: exampleEnv_def)
  have h2: "getStatesHook loggingAlova = Some loggingHost"
    by (simp add: getStatesHook_def loggingAlova_def)
  show ?thesis
    using h1 h2
      effect_handler_choice[OF h1 h2, where hookType = 1 and methodHandler = "''m''"
        and useHookConfig = exampleConfig and initialData = JUndefined
        and ?immediate0.0 = trueValue and watching = None
        and ?debounceDelay0.0 = "Some (Delays [300, 500])" and ?w0.0 = "[]"]
      effect_handler_choice[OF h1 h2, where hookType = 1 and methodHandler = "''m''"
        and useHookConfig = exampleConfig and initialData = JUndefined
        and ?immediate0.0 = trueValue and watching = "Some []"
        and ?debounceDelay0.0 = "Some (Delays [300, 500])" and ?w0.0 = "[]"]
    by (simp add: Let_def case_prod_beta loggingHost_def exampleHost_def exampleEnv_def
          refCurrent_ref_def createFrontStates_def exportStates_def effectParams_of_def
          resetHook_def exampleHook_def wrapEffectRequest_def wrapEffectRequest_trace_def
          handleRequest_def default_param_def nullish_coalescing_def trueValue_def
          falseValue_def delayResolver_def array_get_def)
qed

text \<open>
  C6. The delay resolver gives 0 to a trigger with no changed index. For a changed
  index it gives that element of a per-index table (\<^verbatim>\<open>undefined\<close> outside the table),
  and the scalar delay whatever the index otherwise. It is the resolver \<^verbatim>\<open>debounce\<close> is
  handed.
\<close>

theorem delayResolver_cases:
  "delayResolver debounceDelay None = Some 0
   \<and> delayResolver (Delays ds) (Some (int k)) = (if k < length ds then Some (ds ! k) else None)
   \<and> delayResolver (Delays ds) (Some (- 1 - int k)) = None
   \<and> delayResolver (Delay d) (Some i) = Some d
   \<and> handler (effectParams_of env methodHandler front (Some ws) debounceDelay immediate') =
       debounce env (wrapEffectRequest env methodHandler) (delayResolver debounceDelay)"
  by (simp add: delayResolver_def array_get_def effectParams_of_def)

section \<open>Rejections\<close>

text \<open>
  C7. Whatever the request attempt does (it may fulfil, reject with any error, or stay
  pending), a run of the effect wrapper leaves no promise that rejects without a
  rejection handler, and changes the state as the attempt does; \<^verbatim>\<open>send\<close> with the same
  attempt returns the attempt's own promise, rejected when the attempt rejects.
\<close>

theorem wrapEffectRequest_suppresses:
  assumes "useHookToSendRequest env hookInstance methodHandler None None w
             = (p, hookInstance', w')"
  shows "list_all (\<lambda>t. \<not> unhandledRejection t)
           (fst (wrapEffectRequest_trace env methodHandler (hookInstance, w)))
       \<and> wrapEffectRequest env methodHandler (hookInstance, w) = (hookInstance', w')
       \<and> send env methodHandler None None None (hookInstance, w) = (p, (hookInstance', w'))"
  using assms
  by (cases p)
     (simp_all add: wrapEffectRequest_def wrapEffectRequest_trace_def handleRequest_def send_def
        unhandledRejection_def promiseCatch_def)

theorem wrapEffectRequest_suppresses_witness:
  "useHookToSendRequest (exampleEnv False JUndefined (Rejected (JStr ''boom''))) keptHook ''m''
       None None [] = (Rejected (JStr ''boom''), keptHook, [])
   \<and> list_all (\<lambda>t. \<not> unhandledRejection t)
        (fst (wrapEffectRequest_trace (exampleEnv False JUndefined (Rejected (JStr ''boom'')))
                ''m'' (keptHook, [])))
   \<and> fst (send (exampleEnv False JUndefined (Rejected (JStr ''boom''))) ''m'' None None None
            (keptHook, [])) = Rejected (JStr ''boom'')"
proof -
  have h: "useHookToSendRequest (exampleEnv False JUndefined (Rejected (JStr ''boom'')))
             keptHook ''m'' None None [] = (Rejected (JStr ''boom''), keptHook, [])"
    by (simp add: exampleEnv_def)
  from wrapEffectRequest_suppresses[OF h] h show ?thesis by simp
qed

section \<open>Server rendering\<close>

text \<open>On the server the outcome of an entry is the same whatever \<^verbatim>\<open>effectRequest\<close> is.\<close>

lemma createRequestState_ssr_effectRequest:
  assumes "isSSR env"
  shows "createRequestState env hookType
           (alovaInstance\<lparr>alova_statesHook := Some (statesHook\<lparr>effectRequest := f\<rparr>)\<rparr>)
           methodHandler useHookConfig initialData immediate0 watching debounceDelay0 w0
         = createRequestState env hookType
           (alovaInstance\<lparr>alova_statesHook := Some statesHook\<rparr>)
           methodHandler useHookConfig initialData immediate0 watching debounceDelay0 w0"
  using assms
  by (simp add: createRequestState_def getStatesHook_def Let_def case_prod_beta
        refCurrent_ref_def createFrontStates_def initialLoading_of_def)

text \<open>
  C8. When rendering on the server, an entry registers no effect: no call to the host's
  \<^verbatim>\<open>effectRequest\<close> is recorded, and replacing \<^verbatim>\<open>effectRequest\<close> by any other function
  changes nothing of the entry's outcome (result, hook instance and world), so it is
  never invoked.
\<close>

theorem no_effect_under_ssr:
  assumes "isSSR env"
  shows "registeredEffect
           (createRequestState env hookType alovaInstance methodHandler useHookConfig
              initialData immediate0 watching debounceDelay0 w0) = None
       \<and> createRequestState env hookType
           (alovaInstance\<lparr>alova_statesHook :=
              map_option (\<lambda>statesHook. statesHook\<lparr>effectRequest := f\<rparr>)
                (alova_statesHook alovaInstance)\<rparr>)
           methodHandler useHookConfig initialData immediate0 watching debounceDelay0 w0
         = createRequestState env hookType alovaInstance methodHandler useHookConfig
              initialData immediate0 watching debounceDelay0 w0"
proof
  show "registeredEffect
           (createRequestState env hookType alovaInstance methodHandler useHookConfig
              initialData immediate0 watching debounceDelay0 w0) = None"
    using assms
    by (simp add: registeredEffect_def createRequestState_def Let_def case_prod_beta
          split: option.splits)
next
  show "createRequestState env hookType
           (alovaInstance\<lparr>alova_statesHook :=
              map_option (\<lambda>statesHook. statesHook\<lparr>effectRequest := f\<rparr>)
                (alova_statesHook alovaInstance)\<rparr>)
           methodHandler useHookConfig initialData immediate0 watching debounceDelay0 w0
         = createRequestState env hookType alovaInstance methodHandler useHookConfig
              initialData immediate0 watching debounceDelay0 w0"
  proof (cases "alova_statesHook alovaInstance")
    case None
    then have e: "alovaInstance\<lparr>alova_statesHook := None\<rparr> = alovaInstance"
      by (cases alovaInstance) simp
    show ?thesis by (simp only: None option.map e)
  next
    case (Some statesHook)
    then have e: "alovaInstance\<lparr>alova_statesHook := Some statesHook\<rparr> = alovaInstance"
      by (cases alovaInstance) simp
    show ?thesis
      using createRequestState_ssr_effectRequest[OF assms,
              where alovaInstance = alovaInstance and statesHook = statesHook and f = f]
      by (simp only: Some option.map e)
  qed
qed

theorem no_effect_under_ssr_witness:
  "isSSR (exampleEnv True JUndefined Pending)
   \<and> registeredEffect
       (createRequestState (exampleEnv True JUndefined Pending) 1 exampleAlova ''m''
          exampleConfig JUndefined trueValue None None []) = None
   \<and> createRequestState (exampleEnv True JUndefined Pending) 1
       (exampleAlova\<lparr>alova_statesHook :=
          map_option (\<lambda>statesHook. statesHook\<lparr>effectRequest := loudEffectRequest\<rparr>)
            (alova_statesHook exampleAlova)\<rparr>)
       ''m'' exampleConfig JUndefined trueValue None None []
     = createRequestState (exampleEnv True JUndefined Pending) 1 exampleAlova ''m''
         exampleConfig JUndefined trueValue None None []"
proof -
  have h: "isSSR (exampleEnv True JUndefined Pending)"
    by (simp add: exampleEnv_def)
  show ?thesis
    using h no_effect_under_ssr[OF h, where alovaInstance = exampleAlova
                 and f = loudEffectRequest]
    by simp
qed

section \<open>\<^verbatim>\<open>abort\<close>\<close>

text \<open>
  C9. \<^verbatim>\<open>abort\<close> calls the abort function bound on the hook instance at the time of the
  call and does nothing else; while the bound function is the idle one (no request in
  flight), the call changes neither the hook instance nor the world, and raises
  nothing.
\<close>

theorem abort_calls_bound_function:
  "abort (hookInstance, w) = (hookInstance, ar hookInstance w)
   \<and> abort (hookInstance\<lparr>ar := idleAbort\<rparr>, w) = (hookInstance\<lparr>ar := idleAbort\<rparr>, w)"
  by (simp add: abort_def idleAbort_def)

section \<open>Front states and managed states\<close>

text \<open>
  C10. Whatever managed states the caller supplies, the front states hold under
  \<^verbatim>\<open>data\<close>, \<^verbatim>\<open>loading\<close>, \<^verbatim>\<open>error\<close>, \<^verbatim>\<open>downloading\<close> and \<^verbatim>\<open>uploading\<close> the handles this entry
  created, in that order of creation, so a managed state under one of these names is
  shadowed; under every other name they hold the managed state as supplied (nothing
  when none is).
\<close>

theorem frontStates_core_handles:
  assumes "createFrontStates statesHook useHookConfig initialData initialLoading hookInstance w0
             = ((core, front), w')"
  shows "(\<exists>w1 w2 w3 w4.
            create statesHook initialData hookInstance w0 = (dataState core, w1)
          \<and> create statesHook (JBool initialLoading) hookInstance w1 = (loadingState core, w2)
          \<and> create statesHook undefinedValue hookInstance w2 = (errorState core, w3)
          \<and> create statesHook progress hookInstance w3 = (downloadingState core, w4)
          \<and> create statesHook progress hookInstance w4 = (uploadingState core, w'))
       \<and> front ''data'' = Some (dataState core)
       \<and> front ''loading'' = Some (loadingState core)
       \<and> front ''error'' = Some (errorState core)
       \<and> front ''downloading'' = Some (downloadingState core)
       \<and> front ''uploading'' = Some (uploadingState core)
       \<and> (\<forall>k. k \<notin> {''data'', ''loading'', ''error'', ''downloading'', ''uploading''} \<longrightarrow>
            front k = (case managedStates useHookConfig of None \<Rightarrow> None | Some m \<Rightarrow> m k))"
  using assms
  by (auto simp: createFrontStates_def Let_def split: prod.splits option.splits)

theorem frontStates_core_handles_witness:
  "\<exists>core front w'.
      createFrontStates exampleHost managingConfig (JNum 5) True keptHook [] = ((core, front), w')
    \<and> front ''data'' = Some (JNum 5) \<and> front ''extra'' = Some (JStr ''kept'')"
proof -
  obtain core front w' where h:
    "createFrontStates exampleHost managingConfig (JNum 5) True keptHook [] = ((core, front), w')"
    by (metis prod.exhaust)
  have d: "create exampleHost (JNum 5) keptHook [] = (JNum 5, [])"
    by (simp add: exampleHost_def)
  from frontStates_core_handles[OF h] d h show ?thesis
    by (auto simp: managingConfig_def)
qed

end
